theory Spec2Isabelle
  imports Main "HOL-Library.Word" "HOL-Library.AList"
begin

section \<open>mbtiles: a read-only access layer over a tile container\<close>

text \<open>
  A shallow embedding of \<^verbatim>\<open>mbtiles/mbtiles.go\<close>. Go's \<^verbatim>\<open>string\<close> and
  \<^verbatim>\<open>[]byte\<close> are both sequences of bytes and are modelled as lists of
  \<^typ>\<open>char\<close> (a \<^typ>\<open>char\<close> is one byte); \<^verbatim>\<open>[]byte(value)\<close> is the identity.
  An \<^verbatim>\<open>error\<close> is a value: \<^verbatim>\<open>nil\<close> is \<^term>\<open>None\<close>.
\<close>

type_synonym bytes = "char list"

subsection \<open>Tile formats and errors\<close>

datatype TileFormat = UNKNOWN | GZIP | ZLIB | PNG | JPG | PBF | WEBP

fun String :: "TileFormat \<Rightarrow> string" where
  "String PNG = ''png''"
| "String JPG = ''jpg''"
| "String PBF = ''pbf''"
| "String WEBP = ''webp''"
| "String t = []"

fun ContentType :: "TileFormat \<Rightarrow> string" where
  "ContentType PNG = ''image/png''"
| "ContentType JPG = ''image/jpeg''"
| "ContentType PBF = ''application/x-protobuf''"
| "ContentType WEBP = ''image/webp''"
| "ContentType t = []"

text \<open>
  \<^verbatim>\<open>sql.ErrNoRows\<close> is the one error the code compares against; every other error
  is known by its message only.
\<close>

datatype error = ErrNoRows | Error string

fun errmsg :: "error \<Rightarrow> string" where
  "errmsg ErrNoRows = ''sql: no rows in result set''"
| "errmsg (Error msg) = msg"

text \<open>A call either returns or panics (a Go run-time panic carries a message).\<close>

datatype 'a outcome = Return 'a | Panic string

subsection \<open>The format detector\<close>

text \<open>\<^verbatim>\<open>bytes.HasPrefix\<close>: the buffer is long enough and starts with the pattern.\<close>

definition HasPrefix :: "bytes \<Rightarrow> bytes \<Rightarrow> bool" where
  "HasPrefix s pre \<longleftrightarrow> length pre \<le> length s \<and> take (length pre) s = pre"

text \<open>The pattern table of \<^verbatim>\<open>detectTileFormat\<close>, one entry per key of the Go map.\<close>

definition patterns :: "(TileFormat \<times> bytes) list" where
  "patterns =
    [(GZIP, [CHR 0x1F, CHR 0x8B]),
     (ZLIB, [CHR 0x78, CHR 0x9C]),
     (PNG, [CHR 0x89, CHR 0x50, CHR 0x4E, CHR 0x47, CHR 0x0D, CHR 0x0A, CHR 0x1A, CHR 0x0A]),
     (JPG, [CHR 0xFF, CHR 0xD8, CHR 0xFF]),
     (WEBP, [CHR 0x52, CHR 0x49, CHR 0x46, CHR 0x46, CHR 0xC0, CHR 0x00, CHR 0x00, CHR 0x00,
             CHR 0x57, CHR 0x45, CHR 0x42, CHR 0x50, CHR 0x56, CHR 0x50])]"

text \<open>
  Go ranges over a map in an order of the run-time's choosing. The order is a parameter
  of the model: any list that visits every entry of the table exactly once.
\<close>

definition iteration_order :: "(TileFormat \<times> bytes) list \<Rightarrow> bool" where
  "iteration_order ord \<longleftrightarrow> distinct ord \<and> set ord = set patterns"

text \<open>The \<^verbatim>\<open>for format, pattern := range patterns\<close> loop: the first entry visited that matches.\<close>

fun range_patterns :: "(TileFormat \<times> bytes) list \<Rightarrow> bytes \<Rightarrow> TileFormat option" where
  "range_patterns [] data = None"
| "range_patterns ((format, pattern) # rest) data =
     (if HasPrefix data pattern then Some format else range_patterns rest data)"

definition detectTileFormat :: "(TileFormat \<times> bytes) list \<Rightarrow> bytes \<Rightarrow> TileFormat \<times> error option" where
  "detectTileFormat ord data =
     (case range_patterns ord data of
        Some format \<Rightarrow> (format, None)
      | None \<Rightarrow> (UNKNOWN, Some (Error ''Could not detect tile format'')))"

subsection \<open>Go values and maps\<close>

text \<open>
  A value of type \<^verbatim>\<open>interface{}\<close> as this package meets it: what \<^verbatim>\<open>encoding/json\<close>
  decodes to (\<^verbatim>\<open>nil\<close>, \<^verbatim>\<open>bool\<close>, \<^verbatim>\<open>float64\<close>, \<^verbatim>\<open>string\<close>,
  \<^verbatim>\<open>[]interface{}\<close>, \<^verbatim>\<open>map[string]interface{}\<close>), and the \<^verbatim>\<open>int\<close> and
  \<^verbatim>\<open>[]float64\<close> that \<^verbatim>\<open>ReadMetadata\<close> stores. The type \<^typ>\<open>'n\<close> stands for
  \<^verbatim>\<open>float64\<close>. A non-nil \<^verbatim>\<open>map[string]interface{}\<close> is a list of entries with
  pairwise different keys, written to with \<^const>\<open>AList.update\<close>; a map variable is an
  option, \<^term>\<open>None\<close> being the nil map.
\<close>

datatype 'n any =
    ANil
  | ABool bool
  | AFloat64 'n
  | AString string
  | ASlice "'n any list"
  | AMap "(string \<times> 'n any) list"
  | AInt int
  | AFloat64s "'n list"

type_synonym 'n gomap = "(string \<times> 'n any) list"

text \<open>\<^verbatim>\<open>_, ok := m[k]\<close>; reading a nil map is allowed and finds nothing.\<close>

definition has_key :: "'n gomap option \<Rightarrow> string \<Rightarrow> bool" where
  "has_key m k = (case m of None \<Rightarrow> False | Some entries \<Rightarrow> map_of entries k \<noteq> None)"

text \<open>
  A map variable stored in an \<^verbatim>\<open>interface{}\<close>. A nil map is written by the JSON
  encoder as \<^verbatim>\<open>null\<close>, as a nil interface is, and is not told apart from it here.
\<close>

definition map_value :: "'n gomap option \<Rightarrow> 'n any" where
  "map_value m = (case m of None \<Rightarrow> ANil | Some entries \<Rightarrow> AMap entries)"

subsection \<open>The container, as the queries of this package see it\<close>

text \<open>
  The embedded store is an external collaborator. A container is the answer to each
  query the code issues: an error, or the scanned columns. A column that is
  \<^verbatim>\<open>NULL\<close> scans into \<^verbatim>\<open>*[]byte\<close> as the empty slice.
\<close>

type_synonym uint8 = "8 word"
type_synonym uint64 = "64 word"

text \<open>
  A metadata row: its two columns, \<^term>\<open>None\<close> where the column does not convert to a
  string (\<^verbatim>\<open>NULL\<close>). \<^verbatim>\<open>ReadMetadata\<close> ignores the error of \<^verbatim>\<open>rows.Scan\<close>.
\<close>

type_synonym mdrow = "string option \<times> string option"

record sqldb =
  q_sample_tile :: "error + bytes"
  q_count_grids_view :: "error + int"
  q_sample_grid :: "error + bytes"
  q_count_grid_data_view :: "error + int"
  q_tile :: "uint8 \<Rightarrow> uint64 \<Rightarrow> uint64 \<Rightarrow> error + bytes"
  q_grid :: "uint8 \<Rightarrow> uint64 \<Rightarrow> uint64 \<Rightarrow> error + bytes"
  q_grid_data :: "uint8 \<Rightarrow> uint64 \<Rightarrow> uint64 \<Rightarrow> error + (error + string \<times> bytes) list"
  q_metadata :: "error + mdrow list"
  q_zoom_range :: "error + int \<times> int"

text \<open>
  \<^verbatim>\<open>q_sample_tile\<close>: \<^verbatim>\<open>select tile_data from tiles limit 1\<close>;
  \<^verbatim>\<open>q_count_grids_view\<close>, \<^verbatim>\<open>q_count_grid_data_view\<close>: the two \<^verbatim>\<open>count(*)\<close> probes of
  \<^verbatim>\<open>sqlite_master\<close>; \<^verbatim>\<open>q_sample_grid\<close>: one non-null grid; \<^verbatim>\<open>q_tile\<close>,
  \<^verbatim>\<open>q_grid\<close>: the row at a coordinate; \<^verbatim>\<open>q_grid_data\<close>: the query and then, for
  each row, the result of \<^verbatim>\<open>rows.Scan(&key, &value)\<close>; \<^verbatim>\<open>q_metadata\<close>: the rows with
  a non-empty value; \<^verbatim>\<open>q_zoom_range\<close>: \<^verbatim>\<open>min(zoom_level), max(zoom_level)\<close> scanned into
  two \<^verbatim>\<open>int\<close>s.
\<close>

subsection \<open>The libraries the package calls\<close>

text \<open>
  The operating system, \<^verbatim>\<open>database/sql\<close>, \<^verbatim>\<open>encoding/json\<close>, \<^verbatim>\<open>compress/zlib\<close>,
  \<^verbatim>\<open>compress/gzip\<close> and \<^verbatim>\<open>strconv\<close> are parameters of the model, and so is
  \<^verbatim>\<open>stringToFloats\<close>, a function of this package that \<^verbatim>\<open>mbtiles.go\<close> does not define.
  \<^typ>\<open>'r\<close> is the type of a decompressing reader.
  \<^item> \<^verbatim>\<open>json_Unmarshal\<close>: \<^verbatim>\<open>json.Unmarshal\<close> of a whole document into an
    \<^verbatim>\<open>interface{}\<close>: a syntax error, or the decoded value;
  \<^item> \<^verbatim>\<open>json_Decode\<close>: \<^verbatim>\<open>json.NewDecoder(r).Decode\<close> into an \<^verbatim>\<open>interface{}\<close>:
    the next value of the stream, or the error of reading or parsing it;
  \<^item> \<^verbatim>\<open>json_Encode\<close>: what \<^verbatim>\<open>json.NewEncoder(w).Encode\<close> writes (the text and a
    newline), or its error;
  \<^item> \<^verbatim>\<open>zlib_NewReader\<close>, \<^verbatim>\<open>gzip_NewReader\<close>: fail on a bad header;
  \<^item> \<^verbatim>\<open>zlib_Write\<close>, \<^verbatim>\<open>gzip_Write\<close>: the bytes in the buffer after a writer over it
    has been written to and closed.
\<close>

record ('n, 'r) env =
  sql_Open :: "string \<Rightarrow> error + sqldb"
  os_Stat :: "string \<Rightarrow> error + int"
  json_Unmarshal :: "bytes \<Rightarrow> error + 'n any"
  json_Decode :: "'r \<Rightarrow> error + 'n any"
  json_Encode :: "'n any \<Rightarrow> error + bytes"
  zlib_NewReader :: "bytes \<Rightarrow> error + 'r"
  gzip_NewReader :: "bytes \<Rightarrow> error + 'r"
  zlib_Write :: "bytes \<Rightarrow> bytes"
  gzip_Write :: "bytes \<Rightarrow> bytes"
  strconv_Atoi :: "string \<Rightarrow> error + int"
  stringToFloats :: "string \<Rightarrow> error + 'n list"

text \<open>
  Storing a decoded JSON value into a variable of type \<^verbatim>\<open>map[string]interface{}\<close>, as
  \<^verbatim>\<open>encoding/json\<close> documents it: \<^verbatim>\<open>null\<close> sets the map to nil; an object is stored
  entry by entry into the existing map, or into a new one if the map is nil; any other
  value is an \<^verbatim>\<open>UnmarshalTypeError\<close> and leaves the map as it was.
\<close>

fun json_kind :: "'n any \<Rightarrow> string" where
  "json_kind (ABool b) = ''bool''"
| "json_kind (AString s) = ''string''"
| "json_kind (ASlice vs) = ''array''"
| "json_kind (AFloat64s fs) = ''array''"
| "json_kind (AMap kvs) = ''object''"
| "json_kind ANil = ''null''"
| "json_kind v = ''number''"

definition store_entries :: "'n gomap \<Rightarrow> 'n gomap \<Rightarrow> 'n gomap" where
  "store_entries kvs m = fold (\<lambda>(k, v). AList.update k v) kvs m"

fun store_into_map :: "'n any \<Rightarrow> 'n gomap option \<Rightarrow> 'n gomap option \<times> error option" where
  "store_into_map ANil m = (None, None)"
| "store_into_map (AMap kvs) m =
     (Some (store_entries kvs (case m of None \<Rightarrow> [] | Some entries \<Rightarrow> entries)), None)"
| "store_into_map v m =
     (m, Some (Error (''json: cannot unmarshal '' @ json_kind v
                       @ '' into Go value of type map[string]interface {}'')))"

text \<open>\<^verbatim>\<open>json.Unmarshal(bs, &m)\<close> and \<^verbatim>\<open>json.NewDecoder(r).Decode(&m)\<close> for a map variable \<^verbatim>\<open>m\<close>.\<close>

definition Unmarshal_map ::
  "('n, 'r) env \<Rightarrow> bytes \<Rightarrow> 'n gomap option \<Rightarrow> 'n gomap option \<times> error option" where
  "Unmarshal_map env bs m =
     (case json_Unmarshal env bs of
        Inl err \<Rightarrow> (m, Some err)
      | Inr v \<Rightarrow> store_into_map v m)"

definition Decode_map ::
  "('n, 'r) env \<Rightarrow> 'r \<Rightarrow> 'n gomap option \<Rightarrow> 'n gomap option \<times> error option" where
  "Decode_map env r m =
     (case json_Decode env r of
        Inl err \<Rightarrow> (m, Some err)
      | Inr v \<Rightarrow> store_into_map v m)"

text \<open>
  \<^verbatim>\<open>filepath.Split\<close> (with \<^verbatim>\<open>/\<close> as the separator): the path is cut after its last
  separator. \<^verbatim>\<open>strings.Split(id, ".")[0]\<close> is the part before the first dot.
\<close>

definition filepath_Split :: "string \<Rightarrow> string \<times> string" where
  "filepath_Split path =
     (let file = rev (takeWhile (\<lambda>c. c \<noteq> CHR ''/'') (rev path))
      in (take (length path - length file) path, file))"

definition strings_Split_0 :: "string \<Rightarrow> char \<Rightarrow> string" where
  "strings_Split_0 s sep = takeWhile (\<lambda>c. c \<noteq> sep) s"

text \<open>
  A time is a number of nanoseconds. \<^verbatim>\<open>t.Round(time.Second)\<close> is the nearest whole
  second, halfway values rounded up.
\<close>

definition time_Round_Second :: "int \<Rightarrow> int" where
  "time_Round_Second t =
     (let r = t mod 1000000000 in if r + r < 1000000000 then t - r else t + (1000000000 - r))"

subsection \<open>The tileset handle\<close>

record DB =
  filename :: string
  db :: sqldb
  tileformat :: TileFormat
  timestamp :: int
  hasUTFGrid :: bool
  utfgridCompression :: TileFormat
  hasUTFGridData :: bool

text \<open>The local variable \<^verbatim>\<open>id\<close> of \<^verbatim>\<open>NewDB\<close> (lines 76 and 77).\<close>

definition NewDB_id :: "string \<Rightarrow> string" where
  "NewDB_id fname = (let id = snd (filepath_Split fname) in strings_Split_0 id CHR ''.'')"

text \<open>
  \<^verbatim>\<open>NewDB\<close>. The two iteration orders are those of the two calls of the detector. The
  composite literal names \<^verbatim>\<open>db\<close>, \<^verbatim>\<open>tileformat\<close> and \<^verbatim>\<open>timestamp\<close>; the other
  fields start at their zero values.
\<close>

definition NewDB ::
  "('n, 'r) env \<Rightarrow> (TileFormat \<times> bytes) list \<Rightarrow> (TileFormat \<times> bytes) list \<Rightarrow> string \<Rightarrow> error + DB" where
  "NewDB env ord1 ord2 fname =
    (let id = NewDB_id fname in
     case sql_Open env fname of
       Inl err \<Rightarrow> Inl err
     | Inr d \<Rightarrow>
     (case os_Stat env fname of
       Inl err \<Rightarrow> Inl (Error (''could not read file stats for mbtiles file: '' @ fname @ [CHR 0x0A]))
     | Inr modTime \<Rightarrow>
     (case q_sample_tile d of
       Inl err \<Rightarrow> Inl err
     | Inr data \<Rightarrow>
     (case detectTileFormat ord1 data of
       (tf, Some err) \<Rightarrow> Inl err
     | (tf, None) \<Rightarrow>
       let tf = (if tf = GZIP then PBF else tf);
           out = \<lparr>filename = [], db = d, tileformat = tf,
                  timestamp = time_Round_Second modTime, hasUTFGrid = False,
                  utfgridCompression = UNKNOWN, hasUTFGridData = False\<rparr>
       in
       (case q_count_grids_view d of
         Inl err \<Rightarrow> Inl err
       | Inr count \<Rightarrow>
           if count = 1 then
             (case q_sample_grid d of
               Inl err \<Rightarrow>
                 if err \<noteq> ErrNoRows
                 then Inl (Error (''could not read sample grid to determine type: '' @ errmsg err))
                 else Inr out
             | Inr gridData \<Rightarrow>
               (case detectTileFormat ord2 gridData of
                 (gf, Some err) \<Rightarrow>
                   Inl (Error (''could not determine UTF Grid compression type: '' @ errmsg err))
               | (gf, None) \<Rightarrow>
                 (case q_count_grid_data_view d of
                   Inl err \<Rightarrow> Inl err
                 | Inr count \<Rightarrow>
                     Inr (out\<lparr>hasUTFGrid := True, utfgridCompression := gf,
                              hasUTFGridData := (count = 1)\<rparr>))))
           else Inr out)))))"

subsection \<open>Reading a tile\<close>

text \<open>\<^verbatim>\<open>ReadTile\<close>: the content of \<^verbatim>\<open>*data\<close> after the call and the returned error.\<close>

definition ReadTile :: "DB \<Rightarrow> uint8 \<Rightarrow> uint64 \<Rightarrow> uint64 \<Rightarrow> bytes \<Rightarrow> bytes \<times> error option" where
  "ReadTile tileset z x y data =
     (case q_tile (db tileset) z x y of
        Inl err \<Rightarrow> if err = ErrNoRows then ([], None) else (data, Some err)
      | Inr tile \<Rightarrow> (tile, None))"

subsection \<open>Reading a grid\<close>

text \<open>
  The loop over the rows of \<^verbatim>\<open>grid_data\<close>: a row that does not scan ends the call
  with that error; otherwise the value is unmarshalled into a fresh map, the error of
  \<^verbatim>\<open>json.Unmarshal\<close> is dropped, and the map is stored under the key.
\<close>

fun grid_rows ::
  "('n, 'r) env \<Rightarrow> (error + string \<times> bytes) list \<Rightarrow> 'n gomap \<Rightarrow> error + 'n gomap" where
  "grid_rows env [] keydata = Inr keydata"
| "grid_rows env (Inl err # rows) keydata = Inl err"
| "grid_rows env (Inr (key, val) # rows) keydata =
     (let valuejson = fst (Unmarshal_map env val (Some []))
      in grid_rows env rows (AList.update key (map_value valuejson) keydata))"

text \<open>
  \<^verbatim>\<open>ReadGrid\<close>. The result is the content of \<^verbatim>\<open>*data\<close> after the call and the
  returned error; the argument \<^verbatim>\<open>data\<close> is the content before the call. A scan that
  fails leaves \<^verbatim>\<open>*data\<close> as it was.
\<close>

definition ReadGrid ::
  "('n, 'r) env \<Rightarrow> DB \<Rightarrow> uint8 \<Rightarrow> uint64 \<Rightarrow> uint64 \<Rightarrow> bytes \<Rightarrow> (bytes \<times> error option) outcome" where
  "ReadGrid env tileset z x y data =
    (if \<not> hasUTFGrid tileset
     then Return (data, Some (Error ''Tileset does not contain UTFgrids''))
     else
     (case q_grid (db tileset) z x y of
       Inl err \<Rightarrow> if err = ErrNoRows then Return ([], None) else Return (data, Some err)
     | Inr blob \<Rightarrow>
       if hasUTFGridData tileset then
         (case q_grid_data (db tileset) z x y of
           Inl err \<Rightarrow> Return (blob, Some (Error (''cannot fetch grid data: '' @ errmsg err)))
         | Inr rows \<Rightarrow>
           (case grid_rows env rows [] of
             Inl err \<Rightarrow> Return (blob, Some (Error (''could not fetch grid data: '' @ errmsg err)))
           | Inr keydata \<Rightarrow>
             if length keydata = 0 then Return (blob, None)
             else
             (case (if utfgridCompression tileset = ZLIB
                    then zlib_NewReader env blob else gzip_NewReader env blob) of
               Inl err \<Rightarrow> Return (blob, Some err)
             | Inr zreader \<Rightarrow>
               (case fst (Decode_map env zreader None) of
                 None \<Rightarrow> Panic ''assignment to entry in nil map''
               | Some utfjson \<Rightarrow>
                 (case json_Encode env (AMap (AList.update ''data'' (AMap keydata) utfjson)) of
                   Inl err \<Rightarrow> Return (blob, Some err)
                 | Inr text \<Rightarrow>
                     Return ((if utfgridCompression tileset = ZLIB
                              then zlib_Write env text else gzip_Write env text), None))))))
       else Return (blob, None)))"

subsection \<open>Reading the metadata\<close>

text \<open>
  \<^verbatim>\<open>rows.Scan(&key, &value)\<close> with its error ignored: the columns are assigned in
  order up to the first one that does not convert.
\<close>

fun scan_metadata :: "mdrow \<Rightarrow> string \<times> string \<Rightarrow> string \<times> string" where
  "scan_metadata (None, v) (key, val) = (key, val)"
| "scan_metadata (Some k, None) (key, val) = (k, val)"
| "scan_metadata (Some k, Some v) (key, val) = (k, v)"

text \<open>
  One iteration of the loop over the metadata rows; the state is the map and the two
  scan variables. An assignment to an entry of a nil map panics; a conversion that
  fails returns its error from inside the loop.
\<close>

type_synonym 'n mdstate = "'n gomap option \<times> string \<times> string"

definition metadata_row ::
  "('n, 'r) env \<Rightarrow> mdrow \<Rightarrow> 'n mdstate \<Rightarrow> (error + 'n mdstate) outcome" where
  "metadata_row env row st =
    (let metadata = fst st;
         (key, val) = scan_metadata row (snd st)
     in
     if key = ''maxzoom'' \<or> key = ''minzoom'' then
       (case metadata of
         None \<Rightarrow> Panic ''assignment to entry in nil map''
       | Some m \<Rightarrow>
         (case strconv_Atoi env val of
           Inl err \<Rightarrow> Return (Inl (Error (''cannot read metadata item '' @ key @ '': '' @ errmsg err)))
         | Inr n \<Rightarrow> Return (Inr (Some (AList.update key (AInt n) m), key, val))))
     else if key = ''bounds'' \<or> key = ''center'' then
       (case metadata of
         None \<Rightarrow> Panic ''assignment to entry in nil map''
       | Some m \<Rightarrow>
         (case stringToFloats env val of
           Inl err \<Rightarrow> Return (Inl (Error (''cannot read metadata item '' @ key @ '': '' @ errmsg err)))
         | Inr fs \<Rightarrow> Return (Inr (Some (AList.update key (AFloat64s fs) m), key, val))))
     else if key = ''json'' then
       (case snd (Unmarshal_map env val metadata) of
         Some err \<Rightarrow> Return (Inl (Error (''unable to parse JSON metadata item: '' @ errmsg err)))
       | None \<Rightarrow> Return (Inr (fst (Unmarshal_map env val metadata), key, val)))
     else
       (case metadata of
         None \<Rightarrow> Panic ''assignment to entry in nil map''
       | Some m \<Rightarrow> Return (Inr (Some (AList.update key (AString val) m), key, val))))"

text \<open>The loop: it ends at the first panic or returned error, or when the rows are exhausted.\<close>

fun metadata_rows ::
  "('n, 'r) env \<Rightarrow> mdrow list \<Rightarrow> 'n mdstate \<Rightarrow> (error + 'n mdstate) outcome" where
  "metadata_rows env [] st = Return (Inr st)"
| "metadata_rows env (row # rows) st =
    (case metadata_row env row st of
      Panic msg \<Rightarrow> Panic msg
    | Return (Inl err) \<Rightarrow> Return (Inl err)
    | Return (Inr st') \<Rightarrow> metadata_rows env rows st')"

text \<open>\<^verbatim>\<open>ReadMetadata\<close>: the returned map and error.\<close>

definition ReadMetadata ::
  "('n, 'r) env \<Rightarrow> DB \<Rightarrow> ('n gomap option \<times> error option) outcome" where
  "ReadMetadata env tileset =
    (case q_metadata (db tileset) of
      Inl err \<Rightarrow> Return (None, Some err)
    | Inr rows \<Rightarrow>
      (case metadata_rows env rows (Some [], [], []) of
        Panic msg \<Rightarrow> Panic msg
      | Return (Inl err) \<Rightarrow> Return (None, Some err)
      | Return (Inr st) \<Rightarrow>
          let metadata = fst st;
              hasMinZoom = has_key metadata ''minzoom'';
              hasMaxZoom = has_key metadata ''maxzoom''
          in
          if \<not> (hasMinZoom \<and> hasMaxZoom) then
            (case q_zoom_range (db tileset) of
              Inl err \<Rightarrow> Return (metadata, None)
            | Inr (minZoom, maxZoom) \<Rightarrow>
              (case metadata of
                None \<Rightarrow> Panic ''assignment to entry in nil map''
              | Some m \<Rightarrow>
                  Return (Some (AList.update ''maxzoom'' (AInt maxZoom)
                                 (AList.update ''minzoom'' (AInt minZoom) m)), None)))
          else Return (metadata, None)))"

subsection \<open>The merged grid, in the words of the specification\<close>

text \<open>
  The grid object with its \<^verbatim>\<open>data\<close> field set to the mapping from each key name to
  the object decoded from that key's row.
\<close>

definition merged_grid :: "'n gomap \<Rightarrow> (string \<times> 'n gomap) list \<Rightarrow> 'n any" where
  "merged_grid grid objs =
     AMap (AList.update ''data'' (AMap (map (\<lambda>(k, obj). (k, AMap obj)) objs)) grid)"

text \<open>
  A detail row and the entry it stands for: the same key name, and the object that the
  row's value decodes to (each of its keys once, as in a Go map).
\<close>

definition row_object :: "('n, 'r) env \<Rightarrow> string \<times> bytes \<Rightarrow> string \<times> 'n gomap \<Rightarrow> bool" where
  "row_object env row entry \<longleftrightarrow>
     fst entry = fst row \<and> json_Unmarshal env (snd row) = Inr (AMap (snd entry))
     \<and> distinct (map fst (snd entry))"

subsection \<open>A container and libraries to run the model on\<close>

text \<open>
  A small instance of the parameters. The JSON library is a table of documents and the
  values they decode to (\<^verbatim>\<open>float64\<close> values are whole numbers here); every other text
  is a syntax error. An object is written with its keys sorted, as \<^verbatim>\<open>encoding/json\<close>
  writes a map. The compressors store the text behind the two magic bytes of the envelope.
\<close>

definition demo_documents :: "(bytes \<times> int any) list" where
  \<open>demo_documents =
    [(''1'', AFloat64 1),
     (''2'', AFloat64 2),
     (''null'', ANil),
     (''{"grid":[]}'', AMap [(''grid'', ASlice [])]),
     (''{"n":1}'', AMap [(''n'', AFloat64 1)]),
     (''{"data":{"a":{},"b":{}},"grid":[]}'',
        AMap [(''grid'', ASlice []), (''data'', AMap [(''a'', AMap []), (''b'', AMap [])])]),
     (''{"data":{"a":{"n":1}},"grid":[]}'',
        AMap [(''grid'', ASlice []), (''data'', AMap [(''a'', AMap [(''n'', AFloat64 1)])])]),
     (''{"data":{"a":{}},"grid":[]}'',
        AMap [(''grid'', ASlice []), (''data'', AMap [(''a'', AMap [])])])]\<close>

definition demo_json_Unmarshal :: "bytes \<Rightarrow> error + int any" where
  "demo_json_Unmarshal bs =
     (case map_of demo_documents bs of
        Some v \<Rightarrow> Inr v
      | None \<Rightarrow> Inl (Error ''invalid character looking for beginning of value''))"

text \<open>A decoder reads the first value of its stream, here a document and the newline after it.\<close>

definition demo_json_Decode :: "bytes \<Rightarrow> error + int any" where
  "demo_json_Decode r =
     demo_json_Unmarshal (if r \<noteq> [] \<and> last r = CHR 0x0A then butlast r else r)"

definition demo_json_Encode :: "int any \<Rightarrow> error + bytes" where
  "demo_json_Encode v =
     (case map_of (map (\<lambda>(doc, w). (w, doc)) demo_documents) v of
        Some doc \<Rightarrow> Inr (doc @ [CHR 0x0A])
      | None \<Rightarrow> Inl (Error ''json: unsupported value''))"

definition demo_zlib_NewReader :: "bytes \<Rightarrow> error + bytes" where
  "demo_zlib_NewReader bs =
     (if HasPrefix bs [CHR 0x78, CHR 0x9C] then Inr (drop 2 bs)
      else Inl (Error ''zlib: invalid header''))"

definition demo_gzip_NewReader :: "bytes \<Rightarrow> error + bytes" where
  "demo_gzip_NewReader bs =
     (if HasPrefix bs [CHR 0x1F, CHR 0x8B] then Inr (drop 2 bs)
      else Inl (Error ''gzip: invalid header''))"

definition demo_zlib_Write :: "bytes \<Rightarrow> bytes" where
  "demo_zlib_Write text = [CHR 0x78, CHR 0x9C] @ text"

definition demo_gzip_Write :: "bytes \<Rightarrow> bytes" where
  "demo_gzip_Write text = [CHR 0x1F, CHR 0x8B] @ text"

text \<open>\<^verbatim>\<open>strconv.Atoi\<close> on strings of decimal digits.\<close>

definition demo_Atoi :: "string \<Rightarrow> error + int" where
  "demo_Atoi s =
     (if s \<noteq> [] \<and> list_all (\<lambda>c. (48::nat) \<le> of_char c \<and> of_char c \<le> (57::nat)) s
      then Inr (foldl (\<lambda>n c. 10 * n + (int (of_char c) - 48)) 0 s)
      else Inl (Error ''strconv.Atoi: invalid syntax''))"

definition demo_stringToFloats :: "string \<Rightarrow> error + int list" where
  "demo_stringToFloats s =
     (if s = ''-180,-85,180,85'' then Inr [-180, -85, 180, 85]
      else Inl (Error ''strconv.ParseFloat: invalid syntax''))"

text \<open>
  The container. Its sample tile is gzip data; its grids are zlib data. The grids of
  zoom level 3, column 0: rows 0 to 3 hold the grid \<^verbatim>\<open>{"grid":[]}\<close>, row 5 holds
  \<^verbatim>\<open>null\<close> and row 6 holds text that is not JSON.
\<close>

definition demo_grid :: "uint64 \<Rightarrow> bytes" where
  \<open>demo_grid y =
     demo_zlib_Write (if y = 5 then ''null'' else if y = 6 then ''not json'' else ''{"grid":[]}'')\<close>

definition demo_grid_data :: "uint64 \<Rightarrow> (error + string \<times> bytes) list" where
  \<open>demo_grid_data y =
     (if y = 0 then [Inr (''a'', ''1''), Inr (''b'', ''2'')]
      else if y = 2 then [Inr (''a'', ''{oops'')]
      else if y = 3 then []
      else [Inr (''a'', ''{"n":1}'')])\<close>

definition demo_store :: sqldb where
  "demo_store =
     \<lparr>q_sample_tile = Inr [CHR 0x1F, CHR 0x8B, CHR 0x08, CHR 0x00],
      q_count_grids_view = Inr 1,
      q_sample_grid = Inr (demo_grid 0),
      q_count_grid_data_view = Inr 1,
      q_tile = (\<lambda>z x y. Inl ErrNoRows),
      q_grid = (\<lambda>z x y. if z = 3 \<and> x = 0 \<and> y \<le> 6 then Inr (demo_grid y) else Inl ErrNoRows),
      q_grid_data = (\<lambda>z x y. if z = 3 \<and> x = 0 \<and> y \<le> 6 then Inr (demo_grid_data y) else Inr []),
      q_metadata = Inr [(Some ''name'', Some ''world''), (Some ''maxzoom'', Some ''8'')],
      q_zoom_range = Inr (2, 8)\<rparr>"

text \<open>The same container with a \<^verbatim>\<open>json\<close> metadata row whose value is \<^verbatim>\<open>null\<close>.\<close>

definition demo_store_json_null :: sqldb where
  "demo_store_json_null = demo_store\<lparr>q_metadata := Inr [(Some ''json'', Some ''null'')]\<rparr>"

definition demo_env :: "(int, bytes) env" where
  "demo_env =
     \<lparr>sql_Open = (\<lambda>fname. if fname = ''/data/world.mbtiles'' then Inr demo_store
                          else if fname = ''/data/null.mbtiles'' then Inr demo_store_json_null
                          else Inl (Error ''unable to open database file'')),
      os_Stat = (\<lambda>fname. if fname = ''/data/world.mbtiles'' \<or> fname = ''/data/null.mbtiles''
                         then Inr 63800000000499999999
                         else Inl (Error ''stat: no such file or directory'')),
      json_Unmarshal = demo_json_Unmarshal,
      json_Decode = demo_json_Decode,
      json_Encode = demo_json_Encode,
      zlib_NewReader = demo_zlib_NewReader,
      gzip_NewReader = demo_gzip_NewReader,
      zlib_Write = demo_zlib_Write,
      gzip_Write = demo_gzip_Write,
      strconv_Atoi = demo_Atoi,
      stringToFloats = demo_stringToFloats\<rparr>"

text \<open>The handle that \<^const>\<open>NewDB\<close> builds for \<^verbatim>\<open>/data/world.mbtiles\<close>.\<close>

definition demo_handle :: DB where
  "demo_handle =
     \<lparr>filename = [], db = demo_store, tileformat = PBF, timestamp = 63800000000000000000,
      hasUTFGrid = True, utfgridCompression = ZLIB, hasUTFGridData = True\<rparr>"

section \<open>Properties of the format detector\<close>

lemma range_patterns_None:
  "range_patterns ord data = None \<longleftrightarrow> (\<forall>(f, p) \<in> set ord. \<not> HasPrefix data p)"
  by (induction ord data rule: range_patterns.induct) auto

lemma range_patterns_Some:
  "range_patterns ord data = Some f \<Longrightarrow> \<exists>p. (f, p) \<in> set ord \<and> HasPrefix data p"
  by (induction ord data rule: range_patterns.induct) (auto split: if_splits)

text \<open>A buffer that starts with a pattern starts with that pattern's first byte.\<close>

lemma HasPrefix_Cons:
  "HasPrefix s (c # pre) \<longleftrightarrow> (\<exists>t. s = c # t \<and> HasPrefix t pre)"
  by (cases s) (auto simp: HasPrefix_def)

lemma HasPrefix_Nil: "HasPrefix s []"
  by (simp add: HasPrefix_def)

lemma HasPrefix_Nil_Cons: "HasPrefix [] (c # pre) = False"
  by (simp add: HasPrefix_def)

lemma HasPrefix_Cons_Cons: "HasPrefix (d # s) (c # pre) \<longleftrightarrow> d = c \<and> HasPrefix s pre"
  by (auto simp: HasPrefix_def)

lemmas HasPrefix_eval = HasPrefix_Nil HasPrefix_Nil_Cons HasPrefix_Cons_Cons

text \<open>The five patterns start with five different bytes, so no buffer matches two of them.\<close>

lemma HasPrefix_hd: "HasPrefix data (c # pre) \<Longrightarrow> hd data = c"
  by (auto simp: HasPrefix_Cons)

lemma patterns_exclusive:
  assumes "(f, p) \<in> set patterns" and "(g, q) \<in> set patterns"
    and "HasPrefix data p" and "HasPrefix data q"
  shows "f = g \<and> p = q"
proof -
  have "hd data = hd p"
    using assms(1,3) unfolding patterns_def by (auto dest: HasPrefix_hd)
  moreover have "hd data = hd q"
    using assms(2,4) unfolding patterns_def by (auto dest: HasPrefix_hd)
  ultimately have "hd p = hd q"
    by simp
  with assms(1,2) show ?thesis
    unfolding patterns_def by auto
qed

lemma range_patterns_match:
  assumes "iteration_order ord" and "(f, p) \<in> set patterns" and "HasPrefix data p"
  shows "range_patterns ord data = Some f"
proof (cases "range_patterns ord data")
  case None
  with assms show ?thesis
    by (auto simp: range_patterns_None iteration_order_def)
next
  case (Some g)
  then obtain q where q: "(g, q) \<in> set ord" "HasPrefix data q"
    using range_patterns_Some by blast
  with assms have "(g, q) \<in> set patterns"
    by (simp add: iteration_order_def)
  with assms q have "f = g"
    using patterns_exclusive by blast
  with Some show ?thesis by simp
qed

lemma range_patterns_no_match:
  assumes "iteration_order ord" and "\<forall>(f, p) \<in> set patterns. \<not> HasPrefix data p"
  shows "range_patterns ord data = None"
  using assms by (simp add: range_patterns_None iteration_order_def)

lemma iteration_order_patterns: "iteration_order patterns"
  by (simp add: iteration_order_def patterns_def)

lemma iteration_order_rev: "iteration_order (rev patterns)"
proof -
  have "distinct patterns"
    by (simp add: patterns_def)
  then show ?thesis
    by (simp add: iteration_order_def)
qed

text \<open>
  C4. Whatever order the table is visited in: a buffer that begins with the gzip, zlib,
  PNG, JPEG or RIFF/WEBP magic bytes is given that format and no error; a buffer that
  begins with none of the five patterns is given \<^term>\<open>UNKNOWN\<close> together with an error.
\<close>

theorem detectTileFormat_magic:
  assumes "iteration_order ord"
  shows "(HasPrefix data [CHR 0x1F, CHR 0x8B] \<longrightarrow> detectTileFormat ord data = (GZIP, None))
    \<and> (HasPrefix data [CHR 0x78, CHR 0x9C] \<longrightarrow> detectTileFormat ord data = (ZLIB, None))
    \<and> (HasPrefix data [CHR 0x89, CHR 0x50, CHR 0x4E, CHR 0x47, CHR 0x0D, CHR 0x0A, CHR 0x1A, CHR 0x0A]
          \<longrightarrow> detectTileFormat ord data = (PNG, None))
    \<and> (HasPrefix data [CHR 0xFF, CHR 0xD8, CHR 0xFF] \<longrightarrow> detectTileFormat ord data = (JPG, None))
    \<and> (HasPrefix data [CHR 0x52, CHR 0x49, CHR 0x46, CHR 0x46, CHR 0xC0, CHR 0x00, CHR 0x00, CHR 0x00,
                         CHR 0x57, CHR 0x45, CHR 0x42, CHR 0x50, CHR 0x56, CHR 0x50]
          \<longrightarrow> detectTileFormat ord data = (WEBP, None))
    \<and> ((\<forall>(f, p) \<in> set patterns. \<not> HasPrefix data p)
          \<longrightarrow> detectTileFormat ord data = (UNKNOWN, Some (Error ''Could not detect tile format'')))"
proof -
  have hit: "detectTileFormat ord data = (f, None)"
    if "(f, p) \<in> set patterns" and "HasPrefix data p" for f p
    using range_patterns_match [OF assms that] by (simp add: detectTileFormat_def)
  have miss: "detectTileFormat ord data = (UNKNOWN, Some (Error ''Could not detect tile format''))"
    if "\<forall>(f, p) \<in> set patterns. \<not> HasPrefix data p"
    using range_patterns_no_match [OF assms that] by (simp add: detectTileFormat_def)
  have "(GZIP, [CHR 0x1F, CHR 0x8B]) \<in> set patterns"
    by (simp add: patterns_def)
  moreover have "(ZLIB, [CHR 0x78, CHR 0x9C]) \<in> set patterns"
    by (simp add: patterns_def)
  moreover have "(PNG, [CHR 0x89, CHR 0x50, CHR 0x4E, CHR 0x47, CHR 0x0D, CHR 0x0A, CHR 0x1A, CHR 0x0A])
      \<in> set patterns"
    by (simp add: patterns_def)
  moreover have "(JPG, [CHR 0xFF, CHR 0xD8, CHR 0xFF]) \<in> set patterns"
    by (simp add: patterns_def)
  moreover have "(WEBP, [CHR 0x52, CHR 0x49, CHR 0x46, CHR 0x46, CHR 0xC0, CHR 0x00, CHR 0x00, CHR 0x00,
                        CHR 0x57, CHR 0x45, CHR 0x42, CHR 0x50, CHR 0x56, CHR 0x50]) \<in> set patterns"
    by (simp add: patterns_def)
  ultimately show ?thesis
    using hit miss by blast
qed

theorem detectTileFormat_magic_witness:
  "iteration_order (rev patterns)
   \<and> detectTileFormat (rev patterns) [CHR 0x1F, CHR 0x8B, CHR 0x08] = (GZIP, None)
   \<and> detectTileFormat (rev patterns) [CHR 0xFF, CHR 0xD8, CHR 0xFF, CHR 0xE0] = (JPG, None)
   \<and> detectTileFormat (rev patterns) [CHR 0x00, CHR 0x01]
       = (UNKNOWN, Some (Error ''Could not detect tile format''))"
proof -
  have g: "HasPrefix [CHR 0x1F, CHR 0x8B, CHR 0x08] [CHR 0x1F, CHR 0x8B]"
    by (simp add: HasPrefix_eval)
  have j: "HasPrefix [CHR 0xFF, CHR 0xD8, CHR 0xFF, CHR 0xE0] [CHR 0xFF, CHR 0xD8, CHR 0xFF]"
    by (simp add: HasPrefix_eval)
  have n: "\<forall>(f, p) \<in> set patterns. \<not> HasPrefix [CHR 0x00, CHR 0x01] p"
    by (simp add: patterns_def HasPrefix_eval)
  have 1: "detectTileFormat (rev patterns) [CHR 0x1F, CHR 0x8B, CHR 0x08] = (GZIP, None)"
    using detectTileFormat_magic [OF iteration_order_rev, of "[CHR 0x1F, CHR 0x8B, CHR 0x08]"] g
    by (elim conjE) (erule mp)
  have 2: "detectTileFormat (rev patterns) [CHR 0xFF, CHR 0xD8, CHR 0xFF, CHR 0xE0] = (JPG, None)"
    using detectTileFormat_magic [OF iteration_order_rev, of "[CHR 0xFF, CHR 0xD8, CHR 0xFF, CHR 0xE0]"] j
    by (elim conjE) (erule mp)
  have 3: "detectTileFormat (rev patterns) [CHR 0x00, CHR 0x01]
       = (UNKNOWN, Some (Error ''Could not detect tile format''))"
    using detectTileFormat_magic [OF iteration_order_rev, of "[CHR 0x00, CHR 0x01]"] n
    by (elim conjE) (erule mp)
  show ?thesis
    using 1 2 3 iteration_order_rev by (intro conjI)
qed

text \<open>
  C8. No buffer has two of the five patterns as prefixes, and therefore two evaluations
  of the detector on the same buffer, each with its own iteration order, return the
  same format and the same error.
\<close>

theorem detectTileFormat_deterministic:
  assumes "iteration_order ord1" and "iteration_order ord2"
  shows "(\<forall>(f, p) \<in> set patterns. \<forall>(g, q) \<in> set patterns.
            HasPrefix data p \<and> HasPrefix data q \<longrightarrow> (f, p) = (g, q))
       \<and> detectTileFormat ord1 data = detectTileFormat ord2 data"
proof -
  have excl: "\<forall>(f, p) \<in> set patterns. \<forall>(g, q) \<in> set patterns.
            HasPrefix data p \<and> HasPrefix data q \<longrightarrow> (f, p) = (g, q)"
    using patterns_exclusive by blast
  have "range_patterns ord1 data = range_patterns ord2 data"
  proof (cases "\<exists>f p. (f, p) \<in> set patterns \<and> HasPrefix data p")
    case True
    then obtain f p where fp: "(f, p) \<in> set patterns" "HasPrefix data p"
      by blast
    show ?thesis
      using range_patterns_match [OF assms(1) fp] range_patterns_match [OF assms(2) fp]
      by simp
  next
    case False
    then have none: "\<forall>(f, p) \<in> set patterns. \<not> HasPrefix data p"
      by blast
    show ?thesis
      using range_patterns_no_match [OF assms(1) none] range_patterns_no_match [OF assms(2) none]
      by simp
  qed
  then have "detectTileFormat ord1 data = detectTileFormat ord2 data"
    by (simp add: detectTileFormat_def)
  with excl show ?thesis by blast
qed

theorem detectTileFormat_deterministic_witness:
  "iteration_order patterns \<and> iteration_order (rev patterns)
   \<and> detectTileFormat patterns [CHR 0x78, CHR 0x9C, CHR 0x01]
       = detectTileFormat (rev patterns) [CHR 0x78, CHR 0x9C, CHR 0x01]
   \<and> detectTileFormat patterns [CHR 0x78, CHR 0x9C, CHR 0x01] = (ZLIB, None)"
proof -
  have "detectTileFormat patterns [CHR 0x78, CHR 0x9C, CHR 0x01] = (ZLIB, None)"
    by (simp add: detectTileFormat_def patterns_def HasPrefix_eval)
  then show ?thesis
    using detectTileFormat_deterministic [OF iteration_order_patterns iteration_order_rev,
        of "[CHR 0x78, CHR 0x9C, CHR 0x01]"]
      iteration_order_patterns iteration_order_rev
    by blast
qed

section \<open>The example container\<close>

lemmas demo_json_defs = demo_json_Unmarshal_def demo_json_Decode_def demo_json_Encode_def
  demo_documents_def

lemma demo_env_sel:
  "sql_Open demo_env ''/data/world.mbtiles'' = Inr demo_store"
  "os_Stat demo_env ''/data/world.mbtiles'' = Inr 63800000000499999999"
  "json_Unmarshal demo_env = demo_json_Unmarshal"
  "json_Decode demo_env = demo_json_Decode"
  "json_Encode demo_env = demo_json_Encode"
  "zlib_NewReader demo_env = demo_zlib_NewReader"
  "gzip_NewReader demo_env = demo_gzip_NewReader"
  "zlib_Write demo_env = demo_zlib_Write"
  "gzip_Write demo_env = demo_gzip_Write"
  "strconv_Atoi demo_env = demo_Atoi"
  "stringToFloats demo_env = demo_stringToFloats"
  by (simp_all add: demo_env_def)

lemma demo_handle_sel:
  "filename demo_handle = []"
  "db demo_handle = demo_store"
  "tileformat demo_handle = PBF"
  "hasUTFGrid demo_handle"
  "utfgridCompression demo_handle = ZLIB"
  "hasUTFGridData demo_handle"
  by (simp_all add: demo_handle_def)

lemma demo_store_sel:
  "q_sample_tile demo_store = Inr [CHR 0x1F, CHR 0x8B, CHR 0x08, CHR 0x00]"
  "q_count_grids_view demo_store = Inr 1"
  "q_sample_grid demo_store = Inr (demo_grid 0)"
  "q_count_grid_data_view demo_store = Inr 1"
  "q_zoom_range demo_store = Inr (2, 8)"
  by (simp_all add: demo_store_def)

lemma demo_store_grid:
  "y \<le> 6 \<Longrightarrow> q_grid demo_store 3 0 y = Inr (demo_grid y)"
  "y \<le> 6 \<Longrightarrow> q_grid_data demo_store 3 0 y = Inr (demo_grid_data y)"
  by (simp_all add: demo_store_def)

lemma demo_readers: "demo_zlib_NewReader (demo_zlib_Write text) = Inr text"
  by (simp add: demo_zlib_NewReader_def demo_zlib_Write_def HasPrefix_def)

lemma detect_gzip:
  "detectTileFormat patterns [CHR 0x1F, CHR 0x8B, CHR 0x08, CHR 0x00] = (GZIP, None)"
  by (simp add: detectTileFormat_def patterns_def HasPrefix_eval)

lemma detect_grid0: "detectTileFormat patterns (demo_grid 0) = (ZLIB, None)"
  by (simp add: detectTileFormat_def patterns_def HasPrefix_eval demo_grid_def demo_zlib_Write_def)

lemma NewDB_demo: "NewDB demo_env patterns patterns ''/data/world.mbtiles'' = Inr demo_handle"
  by (simp add: NewDB_def demo_env_sel demo_store_sel detect_gzip detect_grid0 time_Round_Second_def
      demo_handle_def)

lemma NewDB_id_demo: "NewDB_id ''/data/world.mbtiles'' = ''world''"
  by (simp add: NewDB_id_def filepath_Split_def strings_Split_0_def)

section \<open>Opening a container\<close>

text \<open>What a successful \<^const>\<open>NewDB\<close> has seen and what it has put into the handle.\<close>

lemma NewDB_Inr:
  assumes "NewDB env ord1 ord2 fname = Inr h"
  shows "\<exists>d data tf. sql_Open env fname = Inr d \<and> q_sample_tile d = Inr data
           \<and> detectTileFormat ord1 data = (tf, None)
           \<and> tileformat h = (if tf = GZIP then PBF else tf)
           \<and> db h = d \<and> filename h = []"
proof -
  obtain d where d: "sql_Open env fname = Inr d"
    using assms by (cases "sql_Open env fname") (simp_all add: NewDB_def)
  obtain modTime where st: "os_Stat env fname = Inr modTime"
    using assms d by (cases "os_Stat env fname") (simp_all add: NewDB_def)
  obtain data where data: "q_sample_tile d = Inr data"
    using assms d st by (cases "q_sample_tile d") (simp_all add: NewDB_def)
  obtain tf where tf: "detectTileFormat ord1 data = (tf, None)"
    using assms d st data
    by (cases "detectTileFormat ord1 data"; cases "snd (detectTileFormat ord1 data)")
      (simp_all add: NewDB_def)
  define out where "out = \<lparr>filename = [], db = d, tileformat = (if tf = GZIP then PBF else tf),
      timestamp = time_Round_Second modTime, hasUTFGrid = False,
      utfgridCompression = UNKNOWN, hasUTFGridData = False\<rparr>"
  have "tileformat h = tileformat out \<and> db h = db out \<and> filename h = filename out"
    using assms d st data tf unfolding NewDB_def Let_def out_def
    by (simp split: sum.splits prod.splits option.splits if_splits) auto
  then show ?thesis
    using d data tf by (simp add: out_def)
qed

lemma NewDB_never_gzip: "NewDB env ord1 ord2 fname = Inr h \<Longrightarrow> tileformat h \<noteq> GZIP"
  using NewDB_Inr [of env ord1 ord2 fname h] by (auto split: if_splits)

text \<open>
  C3. When the sample tile of the container begins with the gzip magic bytes
  \<^verbatim>\<open>1f 8b\<close>, the handle that \<^verbatim>\<open>NewDB\<close> returns has the tile format PBF, and not GZIP,
  whatever order the detector visits its patterns in.
\<close>

theorem NewDB_gzip_sample_is_pbf:
  assumes "iteration_order ord1"
    and "sql_Open env fname = Inr d" and "q_sample_tile d = Inr data"
    and "HasPrefix data [CHR 0x1F, CHR 0x8B]"
    and "NewDB env ord1 ord2 fname = Inr h"
  shows "tileformat h = PBF \<and> tileformat h \<noteq> GZIP"
proof -
  have "(GZIP, [CHR 0x1F, CHR 0x8B]) \<in> set patterns"
    by (simp add: patterns_def)
  then have "range_patterns ord1 data = Some GZIP"
    using range_patterns_match assms(1,4) by blast
  then have det: "detectTileFormat ord1 data = (GZIP, None)"
    by (simp add: detectTileFormat_def)
  from NewDB_Inr [OF assms(5)] assms(2,3) det have "tileformat h = PBF"
    by auto
  then show ?thesis by simp
qed

theorem NewDB_gzip_sample_is_pbf_witness:
  "iteration_order (rev patterns)
   \<and> q_sample_tile demo_store = Inr [CHR 0x1F, CHR 0x8B, CHR 0x08, CHR 0x00]
   \<and> NewDB demo_env (rev patterns) patterns ''/data/world.mbtiles'' = Inr demo_handle
   \<and> tileformat demo_handle = PBF"
proof -
  have pre: "HasPrefix [CHR 0x1F, CHR 0x8B, CHR 0x08, CHR 0x00] [CHR 0x1F, CHR 0x8B]"
    by (simp add: HasPrefix_eval)
  have det: "detectTileFormat (rev patterns) [CHR 0x1F, CHR 0x8B, CHR 0x08, CHR 0x00] = (GZIP, None)"
    by (simp add: detectTileFormat_def patterns_def HasPrefix_eval)
  have new: "NewDB demo_env (rev patterns) patterns ''/data/world.mbtiles'' = Inr demo_handle"
    by (simp add: NewDB_def demo_env_sel demo_store_sel det detect_grid0 time_Round_Second_def
        demo_handle_def)
  have "tileformat demo_handle = PBF"
    using NewDB_gzip_sample_is_pbf [OF iteration_order_rev demo_env_sel(1) demo_store_sel(1) pre new]
    by simp
  with iteration_order_rev demo_store_sel(1) new show ?thesis
    by (intro conjI)
qed

text \<open>The grid probes and the time stamp of a successful \<^const>\<open>NewDB\<close>.\<close>

lemma NewDB_grid_probes:
  assumes "NewDB env ord1 ord2 fname = Inr h" and "sql_Open env fname = Inr d"
  shows "(hasUTFGrid h \<and>
            (\<exists>gridData gf count. q_count_grids_view d = Inr 1 \<and> q_sample_grid d = Inr gridData
               \<and> detectTileFormat ord2 gridData = (gf, None)
               \<and> q_count_grid_data_view d = Inr count
               \<and> utfgridCompression h = gf \<and> hasUTFGridData h = (count = 1)))
       \<or> (\<not> hasUTFGrid h \<and> utfgridCompression h = UNKNOWN \<and> \<not> hasUTFGridData h
            \<and> (\<exists>count. q_count_grids_view d = Inr count
                  \<and> (count = 1 \<longrightarrow> q_sample_grid d = Inl ErrNoRows)))"
proof -
  obtain modTime where st: "os_Stat env fname = Inr modTime"
    using assms by (cases "os_Stat env fname") (simp_all add: NewDB_def)
  obtain data where data: "q_sample_tile d = Inr data"
    using assms st by (cases "q_sample_tile d") (simp_all add: NewDB_def)
  obtain tf where tf: "detectTileFormat ord1 data = (tf, None)"
    using assms st data
    by (cases "detectTileFormat ord1 data"; cases "snd (detectTileFormat ord1 data)")
      (simp_all add: NewDB_def)
  obtain count where count: "q_count_grids_view d = Inr count"
    using assms st data tf by (cases "q_count_grids_view d") (simp_all add: NewDB_def)
  show ?thesis
  proof (cases "count = 1")
    case False
    with assms st data tf count show ?thesis
      by (auto simp: NewDB_def)
  next
    case True
    show ?thesis
    proof (cases "q_sample_grid d")
      case (Inl err)
      with assms st data tf count True show ?thesis
        by (auto simp: NewDB_def split: if_splits)
    next
      case (Inr gridData)
      obtain gf where gf: "detectTileFormat ord2 gridData = (gf, None)"
        using assms st data tf count True Inr
        by (cases "detectTileFormat ord2 gridData"; cases "snd (detectTileFormat ord2 gridData)")
          (simp_all add: NewDB_def)
      obtain count2 where count2: "q_count_grid_data_view d = Inr count2"
        using assms st data tf count True Inr gf
        by (cases "q_count_grid_data_view d") (simp_all add: NewDB_def)
      from assms st data tf count True Inr gf count2 show ?thesis
        by (auto simp: NewDB_def)
    qed
  qed
qed

lemma NewDB_timestamp:
  assumes "NewDB env ord1 ord2 fname = Inr h"
  shows "\<exists>modTime. os_Stat env fname = Inr modTime \<and> timestamp h = time_Round_Second modTime"
proof -
  obtain d where d: "sql_Open env fname = Inr d"
    using assms by (cases "sql_Open env fname") (simp_all add: NewDB_def)
  obtain modTime where st: "os_Stat env fname = Inr modTime"
    using assms d by (cases "os_Stat env fname") (simp_all add: NewDB_def)
  obtain data where data: "q_sample_tile d = Inr data"
    using assms d st by (cases "q_sample_tile d") (simp_all add: NewDB_def)
  obtain tf where tf: "detectTileFormat ord1 data = (tf, None)"
    using assms d st data
    by (cases "detectTileFormat ord1 data"; cases "snd (detectTileFormat ord1 data)")
      (simp_all add: NewDB_def)
  have "timestamp h = time_Round_Second modTime"
    using assms d st data tf unfolding NewDB_def Let_def
    by (simp split: sum.splits prod.splits option.splits if_splits) auto
  with st show ?thesis by blast
qed

text \<open>
  C9, as amended. For every path that \<^verbatim>\<open>NewDB\<close> accepts, the identifier derived from
  the path is not retained in the handle: the \<^verbatim>\<open>filename\<close> of the handle, its only text
  attribute, is empty, and so differs from every identifier that is not empty. The state
  of the handle after construction is the connection to the container opened at the
  path, the tile format detected on the sample tile (gzip read as PBF), the modification
  time of the file rounded to the second, and the grid flag, grid compression and detail
  flag found by the grid probes.
\<close>

theorem NewDB_keeps_no_identifier:
  assumes "NewDB env ord1 ord2 fname = Inr h"
  shows "filename h = [] \<and> (NewDB_id fname \<noteq> [] \<longrightarrow> filename h \<noteq> NewDB_id fname)
    \<and> (\<exists>d modTime data tf.
          sql_Open env fname = Inr d \<and> os_Stat env fname = Inr modTime
          \<and> q_sample_tile d = Inr data \<and> detectTileFormat ord1 data = (tf, None)
          \<and> db h = d
          \<and> tileformat h = (if tf = GZIP then PBF else tf)
          \<and> timestamp h = time_Round_Second modTime
          \<and> ((hasUTFGrid h \<and>
                (\<exists>gridData gf count. q_count_grids_view d = Inr 1 \<and> q_sample_grid d = Inr gridData
                   \<and> detectTileFormat ord2 gridData = (gf, None)
                   \<and> q_count_grid_data_view d = Inr count
                   \<and> utfgridCompression h = gf \<and> hasUTFGridData h = (count = 1)))
             \<or> (\<not> hasUTFGrid h \<and> utfgridCompression h = UNKNOWN \<and> \<not> hasUTFGridData h
                \<and> (\<exists>count. q_count_grids_view d = Inr count
                      \<and> (count = 1 \<longrightarrow> q_sample_grid d = Inl ErrNoRows)))))"
proof -
  from NewDB_Inr [OF assms] obtain d data tf where
    d: "sql_Open env fname = Inr d" and data: "q_sample_tile d = Inr data"
    and tf: "detectTileFormat ord1 data = (tf, None)"
    and fmt: "tileformat h = (if tf = GZIP then PBF else tf)"
    and conn: "db h = d" and fn: "filename h = []"
    by blast
  from NewDB_timestamp [OF assms] obtain modTime where
    st: "os_Stat env fname = Inr modTime" and ts: "timestamp h = time_Round_Second modTime"
    by blast
  note grids = NewDB_grid_probes [OF assms d]
  have "\<exists>d modTime data tf.
          sql_Open env fname = Inr d \<and> os_Stat env fname = Inr modTime
          \<and> q_sample_tile d = Inr data \<and> detectTileFormat ord1 data = (tf, None)
          \<and> db h = d
          \<and> tileformat h = (if tf = GZIP then PBF else tf)
          \<and> timestamp h = time_Round_Second modTime
          \<and> ((hasUTFGrid h \<and>
                (\<exists>gridData gf count. q_count_grids_view d = Inr 1 \<and> q_sample_grid d = Inr gridData
                   \<and> detectTileFormat ord2 gridData = (gf, None)
                   \<and> q_count_grid_data_view d = Inr count
                   \<and> utfgridCompression h = gf \<and> hasUTFGridData h = (count = 1)))
             \<or> (\<not> hasUTFGrid h \<and> utfgridCompression h = UNKNOWN \<and> \<not> hasUTFGridData h
                \<and> (\<exists>count. q_count_grids_view d = Inr count
                      \<and> (count = 1 \<longrightarrow> q_sample_grid d = Inl ErrNoRows))))"
    using d st data tf conn fmt ts grids
    by (intro exI [of _ d] exI [of _ modTime] exI [of _ data] exI [of _ tf] conjI)
  with fn show ?thesis by simp
qed

theorem NewDB_keeps_no_identifier_witness:
  "NewDB demo_env patterns patterns ''/data/world.mbtiles'' = Inr demo_handle
   \<and> NewDB_id ''/data/world.mbtiles'' = ''world''
   \<and> filename demo_handle = []
   \<and> filename demo_handle \<noteq> NewDB_id ''/data/world.mbtiles''
   \<and> db demo_handle = demo_store
   \<and> tileformat demo_handle = PBF
   \<and> timestamp demo_handle = time_Round_Second 63800000000499999999
   \<and> hasUTFGrid demo_handle \<and> utfgridCompression demo_handle = ZLIB \<and> hasUTFGridData demo_handle"
proof -
  note inst = NewDB_keeps_no_identifier [OF NewDB_demo]
  from inst have fn: "filename demo_handle = []"
    and ne: "NewDB_id ''/data/world.mbtiles'' \<noteq> [] \<longrightarrow> filename demo_handle \<noteq> NewDB_id ''/data/world.mbtiles''"
    by blast+
  from inst obtain d modTime data tf where
    d: "sql_Open demo_env ''/data/world.mbtiles'' = Inr d"
    and st: "os_Stat demo_env ''/data/world.mbtiles'' = Inr modTime"
    and data: "q_sample_tile d = Inr data" and tf: "detectTileFormat patterns data = (tf, None)"
    and conn: "db demo_handle = d"
    and fmt: "tileformat demo_handle = (if tf = GZIP then PBF else tf)"
    and ts: "timestamp demo_handle = time_Round_Second modTime"
    and grids: "(hasUTFGrid demo_handle \<and>
                (\<exists>gridData gf count. q_count_grids_view d = Inr 1 \<and> q_sample_grid d = Inr gridData
                   \<and> detectTileFormat patterns gridData = (gf, None)
                   \<and> q_count_grid_data_view d = Inr count
                   \<and> utfgridCompression demo_handle = gf \<and> hasUTFGridData demo_handle = (count = 1)))
             \<or> (\<not> hasUTFGrid demo_handle \<and> utfgridCompression demo_handle = UNKNOWN
                \<and> \<not> hasUTFGridData demo_handle
                \<and> (\<exists>count. q_count_grids_view d = Inr count
                      \<and> (count = 1 \<longrightarrow> q_sample_grid d = Inl ErrNoRows)))"
    by blast
  from d have d': "d = demo_store"
    by (simp add: demo_env_sel)
  from st have m: "modTime = 63800000000499999999"
    by (simp add: demo_env_sel)
  from data d' have "data = [CHR 0x1F, CHR 0x8B, CHR 0x08, CHR 0x00]"
    by (simp add: demo_store_sel)
  with tf have "tf = GZIP"
    by (simp add: detect_gzip)
  with fmt have f: "tileformat demo_handle = PBF"
    by simp
  from grids d' have g: "hasUTFGrid demo_handle \<and> utfgridCompression demo_handle = ZLIB
      \<and> hasUTFGridData demo_handle"
    by (auto simp: demo_store_sel detect_grid0)
  from fn ne NewDB_id_demo have "filename demo_handle \<noteq> NewDB_id ''/data/world.mbtiles''"
    by simp
  with NewDB_demo NewDB_id_demo fn conn d' f ts m g show ?thesis
    by simp
qed

text \<open>
  C9 as stated fails: for \<^verbatim>\<open>/data/world.mbtiles\<close> the identifier is \<^verbatim>\<open>world\<close>, and
  the handle returned does not hold it.
\<close>

theorem NewDB_identifier_counterexample:
  "NewDB demo_env patterns patterns ''/data/world.mbtiles'' = Inr demo_handle
   \<and> NewDB_id ''/data/world.mbtiles'' = ''world''
   \<and> filename demo_handle \<noteq> NewDB_id ''/data/world.mbtiles''
   \<and> demo_handle = \<lparr>filename = [], db = demo_store, tileformat = PBF,
                      timestamp = 63800000000000000000, hasUTFGrid = True,
                      utfgridCompression = ZLIB, hasUTFGridData = True\<rparr>"
  using NewDB_demo NewDB_id_demo by (simp add: demo_handle_def)

section \<open>Reading a grid\<close>

lemma grid_rows_not_Nil:
  "grid_rows env rows keydata = Inr keydata' \<Longrightarrow> rows \<noteq> [] \<or> keydata \<noteq> [] \<Longrightarrow> keydata' \<noteq> []"
  by (induction env rows keydata rule: grid_rows.induct) (auto simp: Let_def)

text \<open>Decoding anything but an object into a nil map leaves the map nil.\<close>

lemma Decode_map_not_object:
  assumes "\<forall>kvs. json_Decode env r \<noteq> Inr (AMap kvs)"
  shows "fst (Decode_map env r None) = None"
proof (cases "json_Decode env r")
  case (Inl err)
  then show ?thesis by (simp add: Decode_map_def)
next
  case (Inr v)
  with assms show ?thesis
    by (cases v) (simp_all add: Decode_map_def)
qed

text \<open>
  C6. On a handle without grid support, \<^verbatim>\<open>ReadGrid\<close> returns the capability error at
  every coordinate and leaves \<^verbatim>\<open>*data\<close> as it was. No lookup takes place: the result is
  the same whatever container \<^term>\<open>d\<close> the handle is connected to.
\<close>

theorem ReadGrid_no_grid_support:
  assumes "\<not> hasUTFGrid h"
  shows "ReadGrid env (h\<lparr>db := d\<rparr>) z x y data
           = Return (data, Some (Error ''Tileset does not contain UTFgrids''))"
  using assms by (simp add: ReadGrid_def)

theorem ReadGrid_no_grid_support_witness:
  "\<not> hasUTFGrid (demo_handle\<lparr>hasUTFGrid := False\<rparr>)
   \<and> ReadGrid demo_env (demo_handle\<lparr>hasUTFGrid := False, db := demo_store_json_null\<rparr>) 3 0 1 ''old''
       = Return (''old'', Some (Error ''Tileset does not contain UTFgrids''))"
proof -
  have h: "\<not> hasUTFGrid (demo_handle\<lparr>hasUTFGrid := False\<rparr>)"
    by simp
  show ?thesis
    using h ReadGrid_no_grid_support [OF h, of demo_env demo_store_json_null 3 0 1 "''old''"]
    by simp
qed

text \<open>
  C5. On a handle with grid support, at a coordinate with a stored grid blob: if the
  handle has no per-key detail view, or the view has no row for the coordinate,
  \<^verbatim>\<open>ReadGrid\<close> returns the bytes of the stored blob and no error, whatever the blob
  holds.
\<close>

theorem ReadGrid_unmodified:
  assumes "hasUTFGrid h"
    and "q_grid (db h) z x y = Inr blob"
    and "\<not> hasUTFGridData h \<or> q_grid_data (db h) z x y = Inr []"
  shows "ReadGrid env h z x y data = Return (blob, None)"
  using assms by (auto simp: ReadGrid_def)

theorem ReadGrid_unmodified_witness:
  "ReadGrid demo_env demo_handle 3 0 3 [] = Return (demo_grid 3, None)
   \<and> ReadGrid demo_env (demo_handle\<lparr>hasUTFGridData := False\<rparr>) 3 0 0 [] = Return (demo_grid 0, None)"
proof -
  have a: "q_grid (db demo_handle) 3 0 3 = Inr (demo_grid 3)"
    by (simp add: demo_handle_sel demo_store_grid)
  have b: "q_grid_data (db demo_handle) 3 0 3 = Inr []"
    by (simp add: demo_handle_sel demo_store_grid demo_grid_data_def)
  have c: "q_grid (db (demo_handle\<lparr>hasUTFGridData := False\<rparr>)) 3 0 0 = Inr (demo_grid 0)"
    by (simp add: demo_handle_sel demo_store_grid)
  have 1: "ReadGrid demo_env demo_handle 3 0 3 [] = Return (demo_grid 3, None)"
    using ReadGrid_unmodified [of demo_handle 3 0 3 "demo_grid 3" demo_env "[]"] a b
    by (simp add: demo_handle_sel)
  have 2: "ReadGrid demo_env (demo_handle\<lparr>hasUTFGridData := False\<rparr>) 3 0 0 [] = Return (demo_grid 0, None)"
    using ReadGrid_unmodified [of "demo_handle\<lparr>hasUTFGridData := False\<rparr>" 3 0 0 "demo_grid 0" demo_env "[]"] c
    by (simp add: demo_handle_sel)
  from 1 2 show ?thesis by simp
qed

text \<open>The path of \<^verbatim>\<open>ReadGrid\<close> that splices the key data into the grid.\<close>

lemma ReadGrid_splice:
  assumes "hasUTFGrid h" and "hasUTFGridData h"
    and "q_grid (db h) z x y = Inr blob"
    and "q_grid_data (db h) z x y = Inr rows"
    and "grid_rows env rows [] = Inr keydata" and "keydata \<noteq> []"
    and "(if utfgridCompression h = ZLIB then zlib_NewReader env blob else gzip_NewReader env blob)
           = Inr r"
    and "fst (Decode_map env r None) = Some utfjson"
    and "json_Encode env (AMap (AList.update ''data'' (AMap keydata) utfjson)) = Inr text"
  shows "ReadGrid env h z x y data
           = Return (if utfgridCompression h = ZLIB then zlib_Write env text
                     else gzip_Write env text, None)"
  using assms by (simp add: ReadGrid_def)

text \<open>
  C10. On a handle with per-key detail support, at a coordinate with at least one
  detail row (all of them scanned): when the envelope of the stored blob is accepted and
  the decompressed content does not decode to a JSON object (it is not JSON, or is
  \<^verbatim>\<open>null\<close>, or any other value), \<^verbatim>\<open>ReadGrid\<close> returns no error: it panics on the
  assignment of the \<^verbatim>\<open>data\<close> entry into the nil map.
\<close>

theorem ReadGrid_panics:
  assumes "hasUTFGrid h" and "hasUTFGridData h"
    and "q_grid (db h) z x y = Inr blob"
    and "q_grid_data (db h) z x y = Inr rows" and "rows \<noteq> []"
    and "grid_rows env rows [] = Inr keydata"
    and "(if utfgridCompression h = ZLIB then zlib_NewReader env blob else gzip_NewReader env blob)
           = Inr r"
    and "\<forall>kvs. json_Decode env r \<noteq> Inr (AMap kvs)"
  shows "ReadGrid env h z x y data = Panic ''assignment to entry in nil map''"
proof -
  have "keydata \<noteq> []"
    using grid_rows_not_Nil assms(5,6) by blast
  moreover have "fst (Decode_map env r None) = None"
    using assms(8) by (rule Decode_map_not_object)
  ultimately show ?thesis
    using assms(1-4,6,7) by (simp add: ReadGrid_def)
qed

theorem ReadGrid_panics_witness:
  "ReadGrid demo_env demo_handle 3 0 5 [] = Panic ''assignment to entry in nil map''
   \<and> zlib_NewReader demo_env (demo_grid 5) = Inr ''null''
   \<and> json_Decode demo_env ''null'' = Inr ANil
   \<and> ReadGrid demo_env demo_handle 3 0 6 [] = Panic ''assignment to entry in nil map''
   \<and> zlib_NewReader demo_env (demo_grid 6) = Inr ''not json''
   \<and> json_Decode demo_env ''not json''
       = Inl (Error ''invalid character looking for beginning of value'')"
proof -
  have rows5: "q_grid_data (db demo_handle) 3 0 5 = Inr (demo_grid_data 5)"
    and rows6: "q_grid_data (db demo_handle) 3 0 6 = Inr (demo_grid_data 6)"
    and blob5: "q_grid (db demo_handle) 3 0 5 = Inr (demo_grid 5)"
    and blob6: "q_grid (db demo_handle) 3 0 6 = Inr (demo_grid 6)"
    by (simp_all add: demo_handle_sel demo_store_grid)
  have ne: "demo_grid_data 5 \<noteq> []" "demo_grid_data 6 \<noteq> []"
    by (simp_all add: demo_grid_data_def)
  have kd5: "grid_rows demo_env (demo_grid_data 5) [] = Inr [(''a'', AMap [(''n'', AFloat64 1)])]"
    and kd6: "grid_rows demo_env (demo_grid_data 6) [] = Inr [(''a'', AMap [(''n'', AFloat64 1)])]"
    by (simp_all add: demo_grid_data_def Unmarshal_map_def demo_env_sel demo_json_defs map_value_def
        store_entries_def)
  have r5: "zlib_NewReader demo_env (demo_grid 5) = Inr ''null''"
    and r6: "zlib_NewReader demo_env (demo_grid 6) = Inr ''not json''"
    by (simp_all add: demo_env_sel demo_grid_def demo_readers)
  have d5: "json_Decode demo_env ''null'' = Inr ANil"
    and d6: "json_Decode demo_env ''not json''
       = Inl (Error ''invalid character looking for beginning of value'')"
    by (simp_all add: demo_env_sel demo_json_defs)
  have p5: "ReadGrid demo_env demo_handle 3 0 5 [] = Panic ''assignment to entry in nil map''"
    using ReadGrid_panics [of demo_handle 3 0 5 "demo_grid 5" "demo_grid_data 5" demo_env
        "[(''a'', AMap [(''n'', AFloat64 1)])]" "''null''" "[]"]
      rows5 blob5 ne kd5 r5 d5
    by (simp add: demo_handle_sel)
  have p6: "ReadGrid demo_env demo_handle 3 0 6 [] = Panic ''assignment to entry in nil map''"
    using ReadGrid_panics [of demo_handle 3 0 6 "demo_grid 6" "demo_grid_data 6" demo_env
        "[(''a'', AMap [(''n'', AFloat64 1)])]" "''not json''" "[]"]
      rows6 blob6 ne kd6 r6 d6
    by (simp add: demo_handle_sel)
  from p5 p6 r5 r6 d5 d6 show ?thesis
    by (intro conjI)
qed

text \<open>
  C2. The claim is that a detail row whose value is not well-formed JSON makes the call
  fail. \<^verbatim>\<open>ReadGrid\<close> drops the error of \<^verbatim>\<open>json.Unmarshal\<close> (line 195): with the one
  detail row \<^verbatim>\<open>("a", "{oops")\<close> it returns no error and a grid whose \<^verbatim>\<open>data\<close> field
  holds an empty object under \<^verbatim>\<open>a\<close>.
\<close>

theorem ReadGrid_malformed_detail:
  \<open>json_Unmarshal demo_env ''{oops'' = Inl (Error ''invalid character looking for beginning of value'')
   \<and> q_grid_data (db demo_handle) 3 0 2 = Inr [Inr (''a'', ''{oops'')]
   \<and> ReadGrid demo_env demo_handle 3 0 2 []
       = Return (demo_zlib_Write (''{"data":{"a":{}},"grid":[]}'' @ [CHR 0x0A]), None)\<close>
proof -
  have u: "json_Unmarshal demo_env ''{oops'' = Inl (Error ''invalid character looking for beginning of value'')"
    by (simp add: demo_env_sel demo_json_defs)
  have rows: "q_grid_data (db demo_handle) 3 0 2 = Inr [Inr (''a'', ''{oops'')]"
    by (simp add: demo_handle_sel demo_store_grid demo_grid_data_def)
  have blob: "q_grid (db demo_handle) 3 0 2 = Inr (demo_grid 2)"
    by (simp add: demo_handle_sel demo_store_grid)
  have kd: "grid_rows demo_env [Inr (''a'', ''{oops'')] [] = Inr [(''a'', AMap [])]"
    by (simp add: Unmarshal_map_def u map_value_def)
  have rd: \<open>(if utfgridCompression demo_handle = ZLIB then zlib_NewReader demo_env (demo_grid 2)
             else gzip_NewReader demo_env (demo_grid 2)) = Inr ''{"grid":[]}''\<close>
    by (simp add: demo_handle_sel demo_env_sel demo_grid_def demo_readers)
  have dec: \<open>fst (Decode_map demo_env ''{"grid":[]}'' None) = Some [(''grid'', ASlice [])]\<close>
    by (simp add: Decode_map_def demo_env_sel demo_json_defs store_entries_def)
  have enc: \<open>json_Encode demo_env (AMap (AList.update ''data'' (AMap [(''a'', AMap [])]) [(''grid'', ASlice [])]))
      = Inr (''{"data":{"a":{}},"grid":[]}'' @ [CHR 0x0A])\<close>
    by (simp add: demo_env_sel demo_json_defs)
  have \<open>ReadGrid demo_env demo_handle 3 0 2 []
       = Return (demo_zlib_Write (''{"data":{"a":{}},"grid":[]}'' @ [CHR 0x0A]), None)\<close>
    using ReadGrid_splice [OF demo_handle_sel(4) demo_handle_sel(6) blob rows kd _ rd dec enc, of "[]"]
    by (simp add: demo_handle_sel demo_env_sel)
  with u rows show ?thesis by (intro conjI)
qed

subsection \<open>Merging detail rows that hold objects\<close>

lemma update_fresh: "k \<notin> fst ` set al \<Longrightarrow> AList.update k v al = al @ [(k, v)]"
  by (induction al) auto

lemma store_entries_distinct:
  "distinct (map fst (m @ kvs)) \<Longrightarrow> store_entries kvs m = m @ kvs"
proof (induction kvs arbitrary: m)
  case Nil
  then show ?case by (simp add: store_entries_def)
next
  case (Cons kv kvs)
  obtain k v where kv: "kv = (k, v)" by (cases kv)
  from Cons.prems kv have fresh: "k \<notin> fst ` set m"
    by auto
  from Cons.prems kv have "distinct (map fst ((m @ [(k, v)]) @ kvs))"
    by auto
  then have "store_entries kvs (m @ [(k, v)]) = (m @ [(k, v)]) @ kvs"
    by (rule Cons.IH)
  with fresh kv show ?case
    by (simp add: store_entries_def update_fresh)
qed

lemma Unmarshal_object:
  assumes "json_Unmarshal env v = Inr (AMap obj)" and "distinct (map fst obj)"
  shows "map_value (fst (Unmarshal_map env v (Some []))) = AMap obj"
  using assms store_entries_distinct [of "[]" obj]
  by (simp add: Unmarshal_map_def map_value_def)

lemma Decode_object:
  assumes "json_Decode env r = Inr (AMap grid)" and "distinct (map fst grid)"
  shows "fst (Decode_map env r None) = Some grid"
  using assms store_entries_distinct [of "[]" grid]
  by (simp add: Decode_map_def)

text \<open>The loop over rows that hold objects under pairwise different keys.\<close>

lemma grid_rows_objects:
  assumes "list_all2 (row_object env) kvs objs"
    and "distinct (map fst acc @ map fst kvs)"
  shows "grid_rows env (map Inr kvs) acc = Inr (acc @ map (\<lambda>(k, obj). (k, AMap obj)) objs)"
  using assms
proof (induction kvs objs arbitrary: acc rule: list_all2_induct)
  case Nil
  then show ?case by simp
next
  case (Cons row kvs entry objs)
  obtain k v where row: "row = (k, v)" by (cases row)
  obtain k' obj where entry: "entry = (k', obj)" by (cases entry)
  from Cons.hyps(1) row entry have k': "k' = k"
    and dec: "json_Unmarshal env v = Inr (AMap obj)" and dist: "distinct (map fst obj)"
    by (simp_all add: row_object_def)
  from Cons.prems row have fresh: "k \<notin> fst ` set acc"
    by auto
  from Cons.prems row have "distinct (map fst (acc @ [(k, AMap obj)]) @ map fst kvs)"
    by auto
  then have "grid_rows env (map Inr kvs) (acc @ [(k, AMap obj)])
      = Inr ((acc @ [(k, AMap obj)]) @ map (\<lambda>(k, obj). (k, AMap obj)) objs)"
    by (rule Cons.IH)
  with row entry k' fresh show ?case
    by (simp add: Unmarshal_object [OF dec dist] update_fresh)
qed

text \<open>
  C1, as amended. On a handle with grid and per-key detail support whose grid
  compression is zlib: when the stored blob has a zlib envelope and decompresses to a
  JSON object \<^term>\<open>grid\<close>, and the detail rows of the coordinate (at least one, with
  pairwise different key names) hold JSON objects, \<^verbatim>\<open>ReadGrid\<close> returns no error and
  the zlib envelope of the JSON encoding of \<^term>\<open>grid\<close> with its \<^verbatim>\<open>data\<close> field set to
  the mapping from each key name to the object decoded from that row.
\<close>

theorem ReadGrid_merges_objects:
  assumes "hasUTFGrid h" and "hasUTFGridData h" and "utfgridCompression h = ZLIB"
    and "q_grid (db h) z x y = Inr blob"
    and "zlib_NewReader env blob = Inr r"
    and "json_Decode env r = Inr (AMap grid)" and "distinct (map fst grid)"
    and "q_grid_data (db h) z x y = Inr (map Inr kvs)"
    and "kvs \<noteq> []" and "distinct (map fst kvs)"
    and "list_all2 (row_object env) kvs objs"
    and "json_Encode env (merged_grid grid objs) = Inr text"
  shows "ReadGrid env h z x y data = Return (zlib_Write env text, None)"
proof -
  let ?keydata = "map (\<lambda>(k, obj). (k, AMap obj)) objs"
  have kd: "grid_rows env (map Inr kvs) [] = Inr ?keydata"
    using grid_rows_objects [OF assms(11), of "[]"] assms(10) by simp
  have "objs \<noteq> []"
    using assms(9,11) by (auto simp: list_all2_Cons1 neq_Nil_conv)
  then have ne: "?keydata \<noteq> []"
    by simp
  have rd: "(if utfgridCompression h = ZLIB then zlib_NewReader env blob else gzip_NewReader env blob)
           = Inr r"
    using assms(3,5) by simp
  have dec: "fst (Decode_map env r None) = Some grid"
    using assms(6,7) by (rule Decode_object)
  have enc: "json_Encode env (AMap (AList.update ''data'' (AMap ?keydata) grid)) = Inr text"
    using assms(12) by (simp add: merged_grid_def)
  show ?thesis
    using ReadGrid_splice [OF assms(1,2,4,8) kd ne rd dec enc, of data] assms(3)
    by simp
qed

theorem ReadGrid_merges_objects_witness:
  \<open>ReadGrid demo_env demo_handle 3 0 1 []
     = Return (demo_zlib_Write (''{"data":{"a":{"n":1}},"grid":[]}'' @ [CHR 0x0A]), None)
   \<and> json_Unmarshal demo_env ''{"n":1}'' = Inr (AMap [(''n'', AFloat64 1)])
   \<and> json_Decode demo_env (''{"data":{"a":{"n":1}},"grid":[]}'' @ [CHR 0x0A])
       = Inr (merged_grid [(''grid'', ASlice [])] [(''a'', [(''n'', AFloat64 1)])])\<close>
proof -
  have blob: "q_grid (db demo_handle) 3 0 1 = Inr (demo_grid 1)"
    by (simp add: demo_handle_sel demo_store_grid)
  have rd: \<open>zlib_NewReader demo_env (demo_grid 1) = Inr ''{"grid":[]}''\<close>
    by (simp add: demo_env_sel demo_grid_def demo_readers)
  have dec: \<open>json_Decode demo_env ''{"grid":[]}'' = Inr (AMap [(''grid'', ASlice [])])\<close>
    by (simp add: demo_env_sel demo_json_defs)
  have rows: \<open>q_grid_data (db demo_handle) 3 0 1 = Inr (map Inr [(''a'', ''{"n":1}'')])\<close>
    by (simp add: demo_handle_sel demo_store_grid demo_grid_data_def)
  have u: \<open>json_Unmarshal demo_env ''{"n":1}'' = Inr (AMap [(''n'', AFloat64 1)])\<close>
    by (simp add: demo_env_sel demo_json_defs)
  have objs: \<open>list_all2 (row_object demo_env) [(''a'', ''{"n":1}'')] [(''a'', [(''n'', AFloat64 1)])]\<close>
    by (simp add: row_object_def u)
  have enc: \<open>json_Encode demo_env (merged_grid [(''grid'', ASlice [])] [(''a'', [(''n'', AFloat64 1)])])
      = Inr (''{"data":{"a":{"n":1}},"grid":[]}'' @ [CHR 0x0A])\<close>
    by (simp add: demo_env_sel demo_json_defs merged_grid_def)
  have again: \<open>json_Decode demo_env (''{"data":{"a":{"n":1}},"grid":[]}'' @ [CHR 0x0A])
       = Inr (merged_grid [(''grid'', ASlice [])] [(''a'', [(''n'', AFloat64 1)])])\<close>
    by (simp add: demo_env_sel demo_json_defs merged_grid_def)
  have \<open>ReadGrid demo_env demo_handle 3 0 1 []
     = Return (demo_zlib_Write (''{"data":{"a":{"n":1}},"grid":[]}'' @ [CHR 0x0A]), None)\<close>
    using ReadGrid_merges_objects [OF demo_handle_sel(4) demo_handle_sel(6) demo_handle_sel(5)
        blob rd dec _ rows _ _ objs enc, of "[]"]
    by (simp add: demo_env_sel)
  with u again show ?thesis by (intro conjI)
qed

text \<open>
  C1 as stated fails: with the detail rows \<^verbatim>\<open>("a", "1")\<close> and \<^verbatim>\<open>("b", "2")\<close> the values
  are JSON numbers, which do not unmarshal into a \<^verbatim>\<open>map[string]interface{}\<close>; the
  returned blob decompresses to a grid whose \<^verbatim>\<open>data\<close> field holds empty objects, not
  \<^verbatim>\<open>1\<close> and \<^verbatim>\<open>2\<close>.
\<close>

theorem ReadGrid_scalar_rows_counterexample:
  \<open>q_grid_data (db demo_handle) 3 0 0 = Inr [Inr (''a'', ''1''), Inr (''b'', ''2'')]
   \<and> json_Unmarshal demo_env ''1'' = Inr (AFloat64 1)
   \<and> json_Unmarshal demo_env ''2'' = Inr (AFloat64 2)
   \<and> zlib_NewReader demo_env (demo_grid 0) = Inr ''{"grid":[]}''
   \<and> ReadGrid demo_env demo_handle 3 0 0 []
       = Return (demo_zlib_Write (''{"data":{"a":{},"b":{}},"grid":[]}'' @ [CHR 0x0A]), None)
   \<and> zlib_NewReader demo_env (demo_zlib_Write (''{"data":{"a":{},"b":{}},"grid":[]}'' @ [CHR 0x0A]))
       = Inr (''{"data":{"a":{},"b":{}},"grid":[]}'' @ [CHR 0x0A])
   \<and> json_Decode demo_env (''{"data":{"a":{},"b":{}},"grid":[]}'' @ [CHR 0x0A])
       = Inr (AMap [(''grid'', ASlice []), (''data'', AMap [(''a'', AMap []), (''b'', AMap [])])])
   \<and> AMap [(''grid'', ASlice []), (''data'', AMap [(''a'', AMap []), (''b'', AMap [])])]
       \<noteq> AMap [(''grid'', ASlice []), (''data'', AMap [(''a'', AFloat64 (1::int)), (''b'', AFloat64 2)])]\<close>
proof -
  have rows: "q_grid_data (db demo_handle) 3 0 0 = Inr [Inr (''a'', ''1''), Inr (''b'', ''2'')]"
    by (simp add: demo_handle_sel demo_store_grid demo_grid_data_def)
  have blob: "q_grid (db demo_handle) 3 0 0 = Inr (demo_grid 0)"
    by (simp add: demo_handle_sel demo_store_grid)
  have u1: "json_Unmarshal demo_env ''1'' = Inr (AFloat64 1)"
    and u2: "json_Unmarshal demo_env ''2'' = Inr (AFloat64 2)"
    by (simp_all add: demo_env_sel demo_json_defs)
  have kd: "grid_rows demo_env [Inr (''a'', ''1''), Inr (''b'', ''2'')] []
      = Inr [(''a'', AMap []), (''b'', AMap [])]"
    by (simp add: Unmarshal_map_def u1 u2 map_value_def)
  have rd0: \<open>zlib_NewReader demo_env (demo_grid 0) = Inr ''{"grid":[]}''\<close>
    by (simp add: demo_env_sel demo_grid_def demo_readers)
  then have rd: \<open>(if utfgridCompression demo_handle = ZLIB then zlib_NewReader demo_env (demo_grid 0)
             else gzip_NewReader demo_env (demo_grid 0)) = Inr ''{"grid":[]}''\<close>
    by (simp add: demo_handle_sel)
  have dec: \<open>fst (Decode_map demo_env ''{"grid":[]}'' None) = Some [(''grid'', ASlice [])]\<close>
    by (simp add: Decode_map_def demo_env_sel demo_json_defs store_entries_def)
  have enc: \<open>json_Encode demo_env
        (AMap (AList.update ''data'' (AMap [(''a'', AMap []), (''b'', AMap [])]) [(''grid'', ASlice [])]))
      = Inr (''{"data":{"a":{},"b":{}},"grid":[]}'' @ [CHR 0x0A])\<close>
    by (simp add: demo_env_sel demo_json_defs)
  have run: \<open>ReadGrid demo_env demo_handle 3 0 0 []
       = Return (demo_zlib_Write (''{"data":{"a":{},"b":{}},"grid":[]}'' @ [CHR 0x0A]), None)\<close>
    using ReadGrid_splice [OF demo_handle_sel(4) demo_handle_sel(6) blob rows kd _ rd dec enc, of "[]"]
    by (simp add: demo_handle_sel demo_env_sel)
  have rd': \<open>zlib_NewReader demo_env (demo_zlib_Write (''{"data":{"a":{},"b":{}},"grid":[]}'' @ [CHR 0x0A]))
       = Inr (''{"data":{"a":{},"b":{}},"grid":[]}'' @ [CHR 0x0A])\<close>
    by (simp only: demo_env_sel demo_readers)
  have again: \<open>json_Decode demo_env (''{"data":{"a":{},"b":{}},"grid":[]}'' @ [CHR 0x0A])
       = Inr (AMap [(''grid'', ASlice []), (''data'', AMap [(''a'', AMap []), (''b'', AMap [])])])\<close>
    by (simp add: demo_env_sel demo_json_defs)
  have ne: "AMap [(''grid'', ASlice []), (''data'', AMap [(''a'', AMap []), (''b'', AMap [])])]
       \<noteq> AMap [(''grid'', ASlice []), (''data'', AMap [(''a'', AFloat64 (1::int)), (''b'', AFloat64 2)])]"
    by simp
  from rows u1 u2 rd0 run rd' again ne show ?thesis
    by (intro conjI)
qed

section \<open>Reading the metadata\<close>

text \<open>
  After the rows have left a map that is not nil: the map is returned as it is when it
  has both zoom fields or when the fallback query fails, and with both fields set from
  the tile index otherwise.
\<close>

lemma ReadMetadata_rows_done:
  assumes "q_metadata (db h) = Inr rows"
    and "metadata_rows env rows (Some [], [], []) = Return (Inr (Some m, kv))"
  shows "has_key (Some m) ''minzoom'' \<and> has_key (Some m) ''maxzoom''
           \<Longrightarrow> ReadMetadata env h = Return (Some m, None)"
    and "\<not> (has_key (Some m) ''minzoom'' \<and> has_key (Some m) ''maxzoom'')
           \<Longrightarrow> q_zoom_range (db h) = Inl err
           \<Longrightarrow> ReadMetadata env h = Return (Some m, None)"
    and "\<not> (has_key (Some m) ''minzoom'' \<and> has_key (Some m) ''maxzoom'')
           \<Longrightarrow> q_zoom_range (db h) = Inr (minZoom, maxZoom)
           \<Longrightarrow> ReadMetadata env h
               = Return (Some (AList.update ''maxzoom'' (AInt maxZoom)
                                 (AList.update ''minzoom'' (AInt minZoom) m)), None)"
  using assms by (simp_all add: ReadMetadata_def)

lemma ReadMetadata_sets_both:
  "has_key (Some (AList.update ''maxzoom'' (AInt maxZoom) (AList.update ''minzoom'' (AInt minZoom) m)))
     ''minzoom''
   \<and> has_key (Some (AList.update ''maxzoom'' (AInt maxZoom) (AList.update ''minzoom'' (AInt minZoom) m)))
     ''maxzoom''"
  by (simp add: has_key_def update_conv')

lemma metadata_rows_demo:
  "metadata_rows demo_env [(Some ''name'', Some ''world''), (Some ''maxzoom'', Some ''8'')]
      (Some [], [], [])
     = Return (Inr (Some [(''name'', AString ''world''), (''maxzoom'', AInt 8)], ''maxzoom'', ''8''))"
  by (simp add: metadata_row_def demo_env_sel demo_Atoi_def)

lemma ReadMetadata_demo:
  "ReadMetadata demo_env demo_handle
     = Return (Some [(''name'', AString ''world''), (''maxzoom'', AInt 8), (''minzoom'', AInt 2)], None)"
proof -
  have rows: "q_metadata (db demo_handle)
      = Inr [(Some ''name'', Some ''world''), (Some ''maxzoom'', Some ''8'')]"
    by (simp add: demo_handle_sel demo_store_def)
  have zoom: "q_zoom_range (db demo_handle) = Inr (2, 8)"
    by (simp add: demo_handle_sel demo_store_sel)
  have missing: "\<not> (has_key (Some [(''name'', AString ''world''), (''maxzoom'', AInt 8 :: int any)]) ''minzoom''
      \<and> has_key (Some [(''name'', AString ''world''), (''maxzoom'', AInt 8 :: int any)]) ''maxzoom'')"
    by (simp add: has_key_def)
  show ?thesis
    using ReadMetadata_rows_done(3) [OF rows metadata_rows_demo missing zoom]
    by simp
qed

text \<open>When the rows leave the map nil and the fallback query succeeds, the call panics.\<close>

lemma ReadMetadata_nil_map:
  assumes "q_metadata (db h) = Inr rows"
    and "metadata_rows env rows (Some [], [], []) = Return (Inr (None, kv))"
    and "q_zoom_range (db h) = Inr (minZoom, maxZoom)"
  shows "ReadMetadata env h = Panic ''assignment to entry in nil map''"
  using assms by (simp add: ReadMetadata_def has_key_def)

text \<open>
  C7. The claim is that whenever the two zoom fields are not both present after the
  rows have been processed, \<^verbatim>\<open>ReadMetadata\<close> sets both from the tile index. A
  \<^verbatim>\<open>json\<close> row whose value is \<^verbatim>\<open>null\<close> makes \<^verbatim>\<open>json.Unmarshal\<close> set the map to nil
  without an error; neither field is present then, the fallback query answers 2 and 8,
  and the assignment of \<^verbatim>\<open>minzoom\<close> (line 294) panics instead of setting the fields.
\<close>

theorem ReadMetadata_json_null_panics:
  "q_metadata demo_store_json_null = Inr [(Some ''json'', Some ''null'')]
   \<and> q_zoom_range demo_store_json_null = Inr (2, 8)
   \<and> json_Unmarshal demo_env ''null'' = Inr ANil
   \<and> metadata_rows demo_env [(Some ''json'', Some ''null'')] (Some [], [], [])
       = Return (Inr (None, ''json'', ''null''))
   \<and> ReadMetadata demo_env (demo_handle\<lparr>db := demo_store_json_null\<rparr>)
       = Panic ''assignment to entry in nil map''"
proof -
  have rows: "q_metadata demo_store_json_null = Inr [(Some ''json'', Some ''null'')]"
    and zoom: "q_zoom_range demo_store_json_null = Inr (2, 8)"
    by (simp_all add: demo_store_json_null_def demo_store_def)
  have u: "json_Unmarshal demo_env ''null'' = Inr ANil"
    by (simp add: demo_env_sel demo_json_defs)
  have loop: "metadata_rows demo_env [(Some ''json'', Some ''null'')] (Some [], [], [])
       = Return (Inr (None, ''json'', ''null''))"
    by (simp add: metadata_row_def Unmarshal_map_def u)
  have "ReadMetadata demo_env (demo_handle\<lparr>db := demo_store_json_null\<rparr>)
       = Panic ''assignment to entry in nil map''"
    using ReadMetadata_nil_map [of "demo_handle\<lparr>db := demo_store_json_null\<rparr>" _ demo_env] rows zoom loop
    by simp
  with rows zoom u loop show ?thesis
    by (intro conjI)
qed

end
